theory Spec2Isabelle
  imports Complex_Main "HOL-Library.Product_Lexorder"
begin

section \<open>The forecast module (modules/forecast/forecast.h)\<close>

text \<open>
  A shallow embedding of the classes \<^verbatim>\<open>Forecast\<close> and \<^verbatim>\<open>Forecast::ForecastBucket\<close>
  of the forecast module. Objects are records, pointers are addresses, exceptions are
  values, and every member function takes the state it reads and returns the state it
  leaves behind.
\<close>

subsection \<open>Pointers, dates, exceptions\<close>

text \<open>An object address. The null pointer is address 0.\<close>

type_synonym ptr = nat

abbreviation NULL :: ptr where
  "NULL \<equiv> 0"

text \<open>A point in time, counted in the calendar's base time unit.\<close>

type_synonym Date = int

record DateRange =
  getStart :: Date
  getEnd :: Date

datatype exn = DataException string

text \<open>
  The outcome of a member function that may throw: the exception, if one was thrown, and
  the state as the call leaves it (C++ does not roll back what was written before a throw).
\<close>

type_synonym 'a outcome = "exn option \<times> 'a"

subsection \<open>The Demand base class\<close>

text \<open>
  Modelled from the spec: the base class Demand is declared in frepple.h, which is not
  part of the module. Section 6 of the specification gives its contract: it "provides
  name, item, customer, priority, due date, operation, quantity fields and an
  owner/hidden-flag mechanism", and section 3 names the fulfilment policy "plan-late vs
  plan-short; single vs multiple delivery". The fields carry the names of the accessors
  the module calls. The policy is a pair of flags: the first is set for plan-short, the
  second for single-delivery. Quantities are floats in the program and real numbers here.
\<close>

record Demand =
  getName :: string
  getOwner :: ptr
  getHidden :: bool
  getItem :: ptr
  getCustomer :: ptr
  getDue :: Date
  getPriority :: int
  getOperation :: ptr
  getQuantity :: real
  policy :: "bool \<times> bool"

definition planShort :: "'a Demand_scheme \<Rightarrow> bool" where
  "planShort d = fst (policy d)"

definition planLate :: "'a Demand_scheme \<Rightarrow> bool" where
  "planLate d = (\<not> fst (policy d))"

definition planSingleDelivery :: "'a Demand_scheme \<Rightarrow> bool" where
  "planSingleDelivery d = snd (policy d)"

definition planMultiDelivery :: "'a Demand_scheme \<Rightarrow> bool" where
  "planMultiDelivery d = (\<not> snd (policy d))"

definition Demand_setOwner :: "'a Demand_scheme \<Rightarrow> ptr \<Rightarrow> 'a Demand_scheme" where
  "Demand_setOwner d p = d\<lparr>getOwner := p\<rparr>"

definition Demand_setHidden :: "'a Demand_scheme \<Rightarrow> bool \<Rightarrow> 'a Demand_scheme" where
  "Demand_setHidden d b = d\<lparr>getHidden := b\<rparr>"

definition Demand_setItem :: "'a Demand_scheme \<Rightarrow> ptr \<Rightarrow> 'a Demand_scheme" where
  "Demand_setItem d i = d\<lparr>getItem := i\<rparr>"

definition Demand_setCustomer :: "'a Demand_scheme \<Rightarrow> ptr \<Rightarrow> 'a Demand_scheme" where
  "Demand_setCustomer d c = d\<lparr>getCustomer := c\<rparr>"

definition Demand_setDue :: "'a Demand_scheme \<Rightarrow> Date \<Rightarrow> 'a Demand_scheme" where
  "Demand_setDue d t = d\<lparr>getDue := t\<rparr>"

definition Demand_setPriority :: "'a Demand_scheme \<Rightarrow> int \<Rightarrow> 'a Demand_scheme" where
  "Demand_setPriority d n = d\<lparr>getPriority := n\<rparr>"

definition Demand_setOperation :: "'a Demand_scheme \<Rightarrow> ptr \<Rightarrow> 'a Demand_scheme" where
  "Demand_setOperation d p = d\<lparr>getOperation := p\<rparr>"

text \<open>
  Modelled from the spec: \<^verbatim>\<open>Demand::addPolicy\<close> is defined outside the module. It
  reads one policy keyword; the four keywords are the ones the ForecastBucket constructor
  passes. Any other keyword is refused with a data exception and changes nothing.
\<close>

definition Demand_addPolicy :: "'a Demand_scheme \<Rightarrow> string \<Rightarrow> exn + 'a Demand_scheme" where
  "Demand_addPolicy d s =
     (if s = ''PLANSHORT'' then Inr (d\<lparr>policy := (True, snd (policy d))\<rparr>)
      else if s = ''PLANLATE'' then Inr (d\<lparr>policy := (False, snd (policy d))\<rparr>)
      else if s = ''SINGLEDELIVERY'' then Inr (d\<lparr>policy := (fst (policy d), True)\<rparr>)
      else if s = ''MULTIDELIVERY'' then Inr (d\<lparr>policy := (fst (policy d), False)\<rparr>)
      else Inl (DataException (''Unknown demand policy: '' @ s)))"

subsection \<open>Forecast and ForecastBucket\<close>

text \<open>
  \<^verbatim>\<open>class ForecastBucket : public Demand\<close> adds the members \<^verbatim>\<open>weight\<close> and
  \<^verbatim>\<open>timebucket\<close>.
\<close>

record ForecastBucket = Demand +
  weight :: real
  timebucket :: DateRange

text \<open>
  \<^verbatim>\<open>class Forecast : public Demand\<close> adds the member \<^verbatim>\<open>calptr\<close>. The
  sub-demands that name the forecast as their owner are kept in \<^verbatim>\<open>members\<close>, in the
  order in which they were attached.
\<close>

record Forecast = Demand +
  calptr :: ptr
  members :: "ForecastBucket list"

text \<open>
  The base-class constructor \<^verbatim>\<open>Demand(nm)\<close>: a named demand with every other
  field at its default.
\<close>

definition Demand_ctor :: "string \<Rightarrow> Demand" where
  "Demand_ctor nm =
     \<lparr>getName = nm, getOwner = NULL, getHidden = False, getItem = NULL, getCustomer = NULL,
      getDue = 0, getPriority = 0, getOperation = NULL, getQuantity = 0,
      policy = (False, False)\<rparr>"

text \<open>\<^verbatim>\<open>explicit Forecast(const string& nm) : Demand(nm), calptr(NULL) {}\<close>\<close>

definition Forecast_ctor :: "string \<Rightarrow> Forecast" where
  "Forecast_ctor nm = Demand.extend (Demand_ctor nm) \<lparr>calptr = NULL, members = []\<rparr>"

text \<open>
  The constructor \<^verbatim>\<open>ForecastBucket(Forecast* f, Date d, Date e, float w)\<close>. The
  forecast is passed as its address \<^verbatim>\<open>fp\<close> and the object \<^verbatim>\<open>f\<close> at that address.
  The conversion \<^verbatim>\<open>string(d)\<close> of a date to text belongs to the Date class, which is
  outside the module: it is the parameter \<^verbatim>\<open>string_of_Date\<close>. The statements of the
  body are applied in the order of the source.
\<close>

definition ForecastBucket_ctor ::
    "(Date \<Rightarrow> string) \<Rightarrow> ptr \<Rightarrow> Forecast \<Rightarrow> Date \<Rightarrow> Date \<Rightarrow> real \<Rightarrow> exn + ForecastBucket" where
  "ForecastBucket_ctor string_of_Date fp f d e w =
     (let b0 = Demand.extend (Demand_ctor (getName f @ '' - '' @ string_of_Date d))
                 \<lparr>weight = w, timebucket = \<lparr>getStart = d, getEnd = e\<rparr>\<rparr>;
          b1 = Demand_setOwner b0 fp;
          b2 = Demand_setHidden b1 True;
          b3 = Demand_setItem b2 (getItem f);
          b4 = Demand_setDue b3 d;
          b5 = Demand_setPriority b4 (getPriority f)
      in case Demand_addPolicy b5 (if planLate f then ''PLANLATE'' else ''PLANSHORT'') of
           Inl x \<Rightarrow> Inl x
         | Inr b6 \<Rightarrow>
             (case Demand_addPolicy b6
                     (if planSingleDelivery f then ''SINGLEDELIVERY'' else ''MULTIDELIVERY'') of
                Inl x \<Rightarrow> Inl x
              | Inr b7 \<Rightarrow> Inr (Demand_setOperation b7 (getOperation f))))"

subsection \<open>The dictionary of forecasts\<close>

text \<open>
  \<^verbatim>\<open>typedef multimap < pair<const Item*, const Customer*>, Forecast* > MapOfForecasts\<close>:
  the entries in the order in which the container iterates over them, which is the
  lexicographic order of the keys. An iterator is a position in that sequence, and
  \<^verbatim>\<open>end()\<close> is the length.
\<close>

type_synonym MapOfForecasts = "((ptr \<times> ptr) \<times> ptr) list"

text \<open>\<^verbatim>\<open>lower_bound\<close>: the position of the first entry whose key is not less than \<^verbatim>\<open>k\<close>.\<close>

definition lower_bound :: "MapOfForecasts \<Rightarrow> ptr \<times> ptr \<Rightarrow> nat" where
  "lower_bound dict k = length (takeWhile (\<lambda>e. fst e < k) dict)"

text \<open>\<^verbatim>\<open>erase(x)\<close>: the entry at position \<^verbatim>\<open>x\<close> is taken out.\<close>

definition erase :: "MapOfForecasts \<Rightarrow> nat \<Rightarrow> MapOfForecasts" where
  "erase dict x = take x dict @ drop (Suc x) dict"

text \<open>
  The loop of the destructor, from iterator \<^verbatim>\<open>x\<close> on:
  \<^verbatim>\<open>for (...; x != ForecastDictionary.end(); ++x)
    if (x->second == this) { ForecastDictionary.erase(x); return; }\<close>
\<close>

function Forecast_dtor_loop :: "MapOfForecasts \<Rightarrow> ptr \<Rightarrow> nat \<Rightarrow> MapOfForecasts" where
  "Forecast_dtor_loop dict this x =
     (if x < length dict
      then (if snd (dict ! x) = this then erase dict x
            else Forecast_dtor_loop dict this (Suc x))
      else dict)"
  by pat_completeness auto
termination
  by (relation "measure (\<lambda>(dict, this, x). length dict - x)") auto

declare Forecast_dtor_loop.simps [simp del]

text \<open>
  \<^verbatim>\<open>~Forecast()\<close>: the loop starts at the lower bound of the key made of the
  forecast's current item and customer. The result is the dictionary after the call.
\<close>

definition Forecast_dtor :: "MapOfForecasts \<Rightarrow> ptr \<Rightarrow> Forecast \<Rightarrow> MapOfForecasts" where
  "Forecast_dtor dict this f =
     Forecast_dtor_loop dict this (lower_bound dict (getItem f, getCustomer f))"

text \<open>
  \<^verbatim>\<open>virtual void setQuantity(float f)\<close> and \<^verbatim>\<open>virtual void setDue(Date d)\<close>:
  both bodies are a single throw. The state is the dictionary and the forecast object.
\<close>

definition Forecast_setQuantity ::
    "MapOfForecasts \<Rightarrow> Forecast \<Rightarrow> real \<Rightarrow> (MapOfForecasts \<times> Forecast) outcome" where
  "Forecast_setQuantity dict self f =
     (Some (DataException ''Can't set quantity of a forecast''), (dict, self))"

definition Forecast_setDue ::
    "MapOfForecasts \<Rightarrow> Forecast \<Rightarrow> Date \<Rightarrow> (MapOfForecasts \<times> Forecast) outcome" where
  "Forecast_setDue dict self d =
     (Some (DataException ''Can't set due date of a forecast''), (dict, self))"

subsection \<open>Changing the item or the customer\<close>

text \<open>
  Exact lookup in the dictionary: the forecasts registered under the key \<^verbatim>\<open>k\<close>, in
  the order of the container (the \<^verbatim>\<open>equal_range\<close> of a multimap).
\<close>

definition lookup :: "MapOfForecasts \<Rightarrow> ptr \<times> ptr \<Rightarrow> ptr list" where
  "lookup dict k = map snd (filter (\<lambda>e. fst e = k) dict)"

text \<open>
  \<^verbatim>\<open>insert\<close> on a multimap: the new entry goes behind the entries whose key is not
  greater than its own.
\<close>

definition insert_entry :: "MapOfForecasts \<Rightarrow> ptr \<times> ptr \<Rightarrow> ptr \<Rightarrow> MapOfForecasts" where
  "insert_entry dict k v =
     takeWhile (\<lambda>e. fst e \<le> k) dict @ (k, v) # dropWhile (\<lambda>e. fst e \<le> k) dict"

text \<open>
  Modelled from the spec: the bodies of \<^verbatim>\<open>Forecast::setItem\<close> and
  \<^verbatim>\<open>Forecast::setCustomer\<close> are not in the header, which only declares them.
  Section 4.1 of the specification: "update the dictionary entry (remove old key, insert
  new key) atomically with the field mutation; propagate the new item/customer to every
  existing bucket". Section 3: "old entry removed, new entry inserted". The old entry is
  the one that maps the forecast's current key to the forecast.
\<close>

definition Forecast_setItem ::
    "MapOfForecasts \<Rightarrow> ptr \<Rightarrow> Forecast \<Rightarrow> ptr \<Rightarrow> MapOfForecasts \<times> Forecast" where
  "Forecast_setItem dict this self i =
     (let dict1 = remove1 ((getItem self, getCustomer self), this) dict;
          dict2 = insert_entry dict1 (i, getCustomer self) this;
          self1 = Demand_setItem self i
      in (dict2, self1\<lparr>members := map (\<lambda>b. Demand_setItem b i) (members self1)\<rparr>))"

definition Forecast_setCustomer ::
    "MapOfForecasts \<Rightarrow> ptr \<Rightarrow> Forecast \<Rightarrow> ptr \<Rightarrow> MapOfForecasts \<times> Forecast" where
  "Forecast_setCustomer dict this self c =
     (let dict1 = remove1 ((getItem self, getCustomer self), this) dict;
          dict2 = insert_entry dict1 (getItem self, c) this;
          self1 = Demand_setCustomer self c
      in (dict2, self1\<lparr>members := map (\<lambda>b. Demand_setCustomer b c) (members self1)\<rparr>))"

text \<open>
  A forecast is registered when the dictionary holds exactly one entry that maps to it,
  under the key made of its current item and customer.
\<close>

definition registered :: "MapOfForecasts \<Rightarrow> ptr \<Rightarrow> Forecast \<Rightarrow> bool" where
  "registered dict this self =
     (filter (\<lambda>e. snd e = this) dict = [((getItem self, getCustomer self), this)])"

subsection \<open>Setting the quantity over a date range\<close>

text \<open>
  Modelled from the spec: the classes Date and DateRange are declared in frepple.h. A
  bucket covers the half-open interval from its start to its end (section 3: "date range
  [start,end)").
\<close>

definition DateRange_within :: "DateRange \<Rightarrow> Date \<Rightarrow> bool" where
  "DateRange_within r t = (getStart r \<le> t \<and> t < getEnd r)"

definition DateRange_overlap :: "DateRange \<Rightarrow> DateRange \<Rightarrow> int" where
  "DateRange_overlap a b = max 0 (min (getEnd a) (getEnd b) - max (getStart a) (getStart b))"

definition DateRange_intersect :: "DateRange \<Rightarrow> DateRange \<Rightarrow> bool" where
  "DateRange_intersect a b = (max (getStart a) (getStart b) < min (getEnd a) (getEnd b))"

text \<open>
  The degenerate case: the first bucket whose interval contains the instant gets the
  quantity; no result if no bucket contains it.
\<close>

fun set_bucket_at :: "Date \<Rightarrow> real \<Rightarrow> ForecastBucket list \<Rightarrow> ForecastBucket list option" where
  "set_bucket_at t q [] = None"
| "set_bucket_at t q (b # bs) =
     (if DateRange_within (timebucket b) t then Some (b\<lparr>getQuantity := q\<rparr> # bs)
      else (case set_bucket_at t q bs of None \<Rightarrow> None | Some bs' \<Rightarrow> Some (b # bs')))"

definition weight_contribution :: "ForecastBucket \<Rightarrow> DateRange \<Rightarrow> real" where
  "weight_contribution b r = weight b * real_of_int (DateRange_overlap (timebucket b) r)"

definition total_weight :: "ForecastBucket list \<Rightarrow> DateRange \<Rightarrow> real" where
  "total_weight bs r =
     sum_list (map (\<lambda>b. weight_contribution b r) (filter (\<lambda>b. DateRange_intersect (timebucket b) r) bs))"

text \<open>
  Modelled from the spec: the body of \<^verbatim>\<open>Forecast::setQuantity(const DateRange&, float)\<close>
  is not in the header, which declares and documents it. Section 4.1 of the
  specification: "Preconditions: calendar must be assigned; fails with a data-validation
  error otherwise. Degenerate case: if range.start == range.end, locate the single bucket
  whose interval contains that instant and set its quantity directly to qty (no
  distribution math), failing if no bucket exists at that instant. General case:
  enumerate all buckets whose interval intersects range. For each, compute
  overlap_duration [...] and weight_contribution = bucket.weight * overlap_duration. Sum
  weight_contribution over all intersecting buckets -> total_weight. If total_weight is
  zero [...], fail with a data-validation error [...]. Otherwise assign each bucket
  quantity += qty * (weight_contribution / total_weight)".
\<close>

definition Forecast_setQuantity_range :: "Forecast \<Rightarrow> DateRange \<Rightarrow> real \<Rightarrow> Forecast outcome" where
  "Forecast_setQuantity_range self r qty =
     (if calptr self = NULL
      then (Some (DataException ''forecast without a calendar''), self)
      else if getStart r = getEnd r
      then (case set_bucket_at (getStart r) qty (members self) of
              None \<Rightarrow> (Some (DataException ''no forecast bucket at the date''), self)
            | Some bs \<Rightarrow> (None, self\<lparr>members := bs\<rparr>))
      else if total_weight (members self) r = 0
      then (Some (DataException
                    ''forecast quantity assigned to a date range with no capacity''), self)
      else (None, self\<lparr>members :=
              map (\<lambda>b. if DateRange_intersect (timebucket b) r
                       then b\<lparr>getQuantity := getQuantity b +
                               qty * (weight_contribution b r / total_weight (members self) r)\<rparr>
                       else b)
                  (members self)\<rparr>))"

text \<open>
  Buckets exist only once a calendar has been assigned (section 3: "on first calendar
  assignment, buckets are generated").
\<close>

definition Forecast_invariant :: "Forecast \<Rightarrow> bool" where
  "Forecast_invariant self = (calptr self = NULL \<longrightarrow> members self = [])"

subsection \<open>Example data\<close>

text \<open>
  A forecast at address 11 with calendar 7 and two buckets: the first covers the dates
  from 0 to 10 with weight 1, the second the dates from 10 to 20 with weight 0.
\<close>

definition example_bucket :: "string \<Rightarrow> Date \<Rightarrow> Date \<Rightarrow> real \<Rightarrow> ForecastBucket" where
  "example_bucket nm d e w =
     Demand.extend ((Demand_ctor nm)\<lparr>getOwner := 11, getHidden := True, getDue := d\<rparr>)
       \<lparr>weight = w, timebucket = \<lparr>getStart = d, getEnd = e\<rparr>\<rparr>"

definition example_forecast :: Forecast where
  "example_forecast =
     (Forecast_ctor ''F'')\<lparr>calptr := 7,
        members := [example_bucket ''F - 0'' 0 10 1, example_bucket ''F - 10'' 10 20 0]\<rparr>"

section \<open>Properties\<close>

subsection \<open>The destructor and the dictionary\<close>

text \<open>If no entry from position \<^verbatim>\<open>x\<close> on maps to the forecast, the loop leaves the dictionary as it is.\<close>

lemma Forecast_dtor_loop_absent:
  "\<forall>i. x \<le> i \<and> i < length dict \<longrightarrow> snd (dict ! i) \<noteq> this \<Longrightarrow> Forecast_dtor_loop dict this x = dict"
proof (induction dict this x rule: Forecast_dtor_loop.induct)
  case (1 dict this x)
  show ?case
  proof (cases "x < length dict")
    case True
    with "1.prems" have ne: "snd (dict ! x) \<noteq> this" by simp
    have "Forecast_dtor_loop dict this (Suc x) = dict"
      using "1.IH" [OF True ne] "1.prems" by simp
    with True ne show ?thesis by (simp add: Forecast_dtor_loop.simps [of dict this x])
  next
    case False
    then show ?thesis by (simp add: Forecast_dtor_loop.simps [of dict this x])
  qed
qed

text \<open>Otherwise the loop erases the first such entry, and nothing else.\<close>

lemma Forecast_dtor_loop_found:
  "x \<le> j \<Longrightarrow> j < length dict \<Longrightarrow> snd (dict ! j) = this \<Longrightarrow>
   \<forall>i. x \<le> i \<and> i < j \<longrightarrow> snd (dict ! i) \<noteq> this \<Longrightarrow>
   Forecast_dtor_loop dict this x = erase dict j"
proof (induction dict this x rule: Forecast_dtor_loop.induct)
  case (1 dict this x)
  from "1.prems" have lt: "x < length dict" by simp
  show ?case
  proof (cases "x = j")
    case True
    with "1.prems" lt show ?thesis by (simp add: Forecast_dtor_loop.simps [of dict this j])
  next
    case False
    with "1.prems" have xj: "x < j" by simp
    with "1.prems" have ne: "snd (dict ! x) \<noteq> this" by simp
    have "Forecast_dtor_loop dict this (Suc x) = erase dict j"
      using "1.IH" [OF lt ne] "1.prems" xj by simp
    with lt ne show ?thesis by (simp add: Forecast_dtor_loop.simps [of dict this x])
  qed
qed

text \<open>In an ordered dictionary the entries before the lower bound are those with a lesser key.\<close>

lemma lower_bound_le: "lower_bound dict k \<le> length dict"
  by (simp add: lower_bound_def length_takeWhile_le)

lemma before_lower_bound:
  "i < lower_bound dict k \<Longrightarrow> fst (dict ! i) < k"
  unfolding lower_bound_def
  by (metis (mono_tags, lifting) takeWhile_nth nth_mem set_takeWhileD)

lemma from_lower_bound:
  assumes "sorted (map fst dict)" "lower_bound dict k \<le> i" "i < length dict"
  shows "k \<le> fst (dict ! i)"
proof -
  let ?l = "lower_bound dict k"
  have "?l < length dict" using assms by simp
  then have "\<not> fst (dict ! ?l) < k"
    unfolding lower_bound_def by (rule nth_length_takeWhile)
  moreover have "fst (dict ! ?l) \<le> fst (dict ! i)"
    using assms sorted_nth_mono [of "map fst dict" ?l i] by simp
  ultimately show ?thesis by simp
qed


text \<open>
  C10. Destroying a forecast erases at most one entry of the dictionary, and only an entry
  whose mapped value is that forecast: the dictionary after the call is the one before it
  with at most one entry \<^verbatim>\<open>(k, this)\<close> taken out, so the entries of every other
  forecast are unchanged. The search starts at the lower bound of the key made of the
  forecast's current item and customer: the erased entry has a key at or after that key,
  an entry of the forecast that sorts before it is never found, and if all entries of the
  forecast sort before it the dictionary is unchanged. The dictionary is ordered by key,
  as a multimap is.
\<close>

theorem Forecast_dtor_frame:
  assumes "sorted (map fst dict)"
  shows "((\<forall>e\<in>set dict. snd e = this \<longrightarrow> fst e < (getItem f, getCustomer f)) \<longrightarrow>
            Forecast_dtor dict this f = dict) \<and>
         ((\<exists>e\<in>set dict. snd e = this \<and> (getItem f, getCustomer f) \<le> fst e) \<longrightarrow>
            (\<exists>pre k post. dict = pre @ (k, this) # post \<and>
               Forecast_dtor dict this f = pre @ post \<and>
               (getItem f, getCustomer f) \<le> k \<and>
               (\<forall>e\<in>set pre. snd e = this \<longrightarrow> fst e < (getItem f, getCustomer f)))) \<and>
         length (Forecast_dtor dict this f) \<le> length dict \<and>
         length dict \<le> Suc (length (Forecast_dtor dict this f)) \<and>
         filter (\<lambda>e. snd e \<noteq> this) (Forecast_dtor dict this f) = filter (\<lambda>e. snd e \<noteq> this) dict"
proof -
  let ?key = "(getItem f, getCustomer f)"
  let ?l = "lower_bound dict ?key"
  show ?thesis
  proof (cases "\<exists>j. ?l \<le> j \<and> j < length dict \<and> snd (dict ! j) = this")
    case False
    then have same: "Forecast_dtor dict this f = dict"
      unfolding Forecast_dtor_def by (intro Forecast_dtor_loop_absent) blast
    have none: "\<not> (\<exists>e\<in>set dict. snd e = this \<and> ?key \<le> fst e)"
    proof
      assume "\<exists>e\<in>set dict. snd e = this \<and> ?key \<le> fst e"
      then obtain i where i: "i < length dict" "snd (dict ! i) = this" "?key \<le> fst (dict ! i)"
        by (auto simp: in_set_conv_nth)
      then have "\<not> i < ?l" using before_lower_bound [of i dict ?key] by auto
      with i False show False by auto
    qed
    have c1: "(\<forall>e\<in>set dict. snd e = this \<longrightarrow> fst e < ?key) \<longrightarrow> Forecast_dtor dict this f = dict"
      using same by blast
    have c2: "(\<exists>e\<in>set dict. snd e = this \<and> ?key \<le> fst e) \<longrightarrow>
            (\<exists>pre k post. dict = pre @ (k, this) # post \<and>
               Forecast_dtor dict this f = pre @ post \<and> ?key \<le> k \<and>
               (\<forall>e\<in>set pre. snd e = this \<longrightarrow> fst e < ?key))"
      using none by blast
    have c3: "length dict \<le> Suc (length (Forecast_dtor dict this f))"
      by (simp add: same)
    have c4: "filter (\<lambda>e. snd e \<noteq> this) (Forecast_dtor dict this f) = filter (\<lambda>e. snd e \<noteq> this) dict"
      by (simp add: same)
    have c5: "length (Forecast_dtor dict this f) \<le> length dict"
      by (simp add: same)
    show ?thesis using c1 c2 c3 c4 c5 by blast
  next
    case True
    define j where "j = (LEAST j. ?l \<le> j \<and> j < length dict \<and> snd (dict ! j) = this)"
    have j: "?l \<le> j" "j < length dict" "snd (dict ! j) = this"
      using LeastI_ex [OF True] unfolding j_def by auto
    have least: "\<forall>i. ?l \<le> i \<and> i < j \<longrightarrow> snd (dict ! i) \<noteq> this"
      using not_less_Least [of _ "\<lambda>j. ?l \<le> j \<and> j < length dict \<and> snd (dict ! j) = this"] j
      unfolding j_def by (metis (mono_tags, lifting) less_trans)
    have res: "Forecast_dtor dict this f = take j dict @ drop (Suc j) dict"
      unfolding Forecast_dtor_def erase_def [symmetric]
      using j least by (intro Forecast_dtor_loop_found) auto
    have split: "dict = take j dict @ (fst (dict ! j), this) # drop (Suc j) dict"
      using j by (metis id_take_nth_drop prod.collapse)
    have key: "?key \<le> fst (dict ! j)"
      using from_lower_bound [OF assms j(1) j(2)] .
    have pre: "\<forall>e\<in>set (take j dict). snd e = this \<longrightarrow> fst e < ?key"
    proof (intro ballI impI)
      fix e assume "e \<in> set (take j dict)" "snd e = this"
      then obtain i where i: "i < j" "e = dict ! i" 
        using j(2) by (auto simp: in_set_conv_nth)
      have "i < ?l"
      proof (rule ccontr)
        assume "\<not> i < ?l"
        then have "?l \<le> i \<and> i < j" using i by simp
        with least have "snd (dict ! i) \<noteq> this" by blast
        with i \<open>snd e = this\<close> show False by simp
      qed
      then show "fst e < ?key" using before_lower_bound i by simp
    qed
    have ex: "\<exists>e\<in>set dict. snd e = this \<and> ?key \<le> fst e"
      using j key by (metis nth_mem)
    have notall: "\<not> (\<forall>e\<in>set dict. snd e = this \<longrightarrow> fst e < ?key)"
      using ex by (meson not_le)
    have len: "length dict \<le> Suc (length (Forecast_dtor dict this f))"
      using j by (simp add: res)
    have filt: "filter (\<lambda>e. snd e \<noteq> this) (Forecast_dtor dict this f) = filter (\<lambda>e. snd e \<noteq> this) dict"
      by (subst (2) split) (simp add: res)
    have found: "\<exists>pre k post. dict = pre @ (k, this) # post \<and>
               Forecast_dtor dict this f = pre @ post \<and> ?key \<le> k \<and>
               (\<forall>e\<in>set pre. snd e = this \<longrightarrow> fst e < ?key)"
      using split res key pre by blast
    have len': "length (Forecast_dtor dict this f) \<le> length dict"
      by (simp add: res)
    show ?thesis using notall found len len' filt by blast
  qed
qed


text \<open>
  Two runs on a dictionary of three forecasts. In the first the forecast at address 11 is
  registered under its current key and its entry is erased. In the second its current key
  sorts after the key it is registered under, and the dictionary is unchanged.
\<close>

theorem Forecast_dtor_frame_witness:
  "sorted (map fst ([((1, 1), 10), ((1, 2), 11), ((2, 1), 12)] :: MapOfForecasts)) \<and>
   Forecast_dtor [((1, 1), 10), ((1, 2), 11), ((2, 1), 12)] 11
     ((Forecast_ctor ''F'')\<lparr>getItem := 1, getCustomer := 2\<rparr>) =
     [((1, 1), 10), ((2, 1), 12)] \<and>
   Forecast_dtor [((1, 1), 10), ((1, 2), 11), ((2, 1), 12)] 11
     ((Forecast_ctor ''F'')\<lparr>getItem := 2, getCustomer := 0\<rparr>) =
     [((1, 1), 10), ((1, 2), 11), ((2, 1), 12)]"
proof -
  let ?d = "[((1, 1), 10), ((1, 2), 11), ((2, 1), 12)] :: MapOfForecasts"
  let ?f = "(Forecast_ctor ''F'')\<lparr>getItem := 1, getCustomer := 2\<rparr>"
  let ?g = "(Forecast_ctor ''F'')\<lparr>getItem := 2, getCustomer := 0\<rparr>"
  have s: "sorted (map fst ?d)" by simp
  have kf: "(getItem ?f, getCustomer ?f) = (1, 2)" by (simp add: Forecast_ctor_def)
  have kg: "(getItem ?g, getCustomer ?g) = (2, 0)" by (simp add: Forecast_ctor_def)
  from Forecast_dtor_frame [OF s, of 11 ?f]
  have "\<exists>pre k post. ?d = pre @ (k, 11) # post \<and> Forecast_dtor ?d 11 ?f = pre @ post"
    unfolding kf by auto
  then have a: "Forecast_dtor ?d 11 ?f = [((1, 1), 10), ((2, 1), 12)]"
    by (auto simp: Cons_eq_append_conv append_eq_Cons_conv)
  from Forecast_dtor_frame [OF s, of 11 ?g]
  have b: "Forecast_dtor ?d 11 ?g = ?d"
    unfolding kg by auto
  from s a b show ?thesis by blast
qed

subsection \<open>The constructor of a forecast bucket\<close>

text \<open>
  C9. A forecast bucket, at construction, is owned by its forecast, is hidden, has its due
  date at the start of its time bucket, is named after its owner (the owner's name, then
  \<^verbatim>\<open> - \<close>, then the start date as text), and mirrors the owner's item, priority,
  operation, plan-late or plan-short policy and single or multiple delivery policy as
  they are when it is created. The constructor does not throw.
\<close>

theorem ForecastBucket_ctor_mirrors_owner:
  "\<exists>b. ForecastBucket_ctor string_of_Date fp f d e w = Inr b \<and>
       getOwner b = fp \<and> getHidden b = True \<and> getDue b = d \<and>
       getName b = getName f @ '' - '' @ string_of_Date d \<and>
       getItem b = getItem f \<and> getPriority b = getPriority f \<and>
       getOperation b = getOperation f \<and>
       planLate b = planLate f \<and> planShort b = planShort f \<and>
       planSingleDelivery b = planSingleDelivery f \<and>
       planMultiDelivery b = planMultiDelivery f \<and>
       weight b = w \<and> timebucket b = \<lparr>getStart = d, getEnd = e\<rparr>"
  by (simp add: ForecastBucket_ctor_def Demand_addPolicy_def Demand_ctor_def Demand.extend_def
      Demand_setOwner_def Demand_setHidden_def Demand_setItem_def Demand_setDue_def
      Demand_setPriority_def Demand_setOperation_def planLate_def planShort_def
      planSingleDelivery_def planMultiDelivery_def)

subsection \<open>Quantity and due date of the aggregate\<close>

text \<open>
  C5. For every forecast, in every state and for every argument, setting the quantity
  or the due date of the forecast itself throws a data exception and changes neither the
  forecast nor the dictionary.
\<close>

theorem Forecast_aggregate_not_settable:
  "Forecast_setQuantity dict self q =
     (Some (DataException ''Can't set quantity of a forecast''), (dict, self)) \<and>
   Forecast_setDue dict self d =
     (Some (DataException ''Can't set due date of a forecast''), (dict, self))"
  by (simp add: Forecast_setQuantity_def Forecast_setDue_def)

subsection \<open>Changing the item or the customer\<close>

text \<open>A registered forecast is found under its current key and under no other.\<close>

lemma registered_lookup:
  assumes "registered dict this self"
  shows "this \<in> set (lookup dict k) \<longleftrightarrow> k = (getItem self, getCustomer self)"
proof -
  have "this \<in> set (lookup dict k) \<longleftrightarrow> (k, this) \<in> set (filter (\<lambda>e. snd e = this) dict)"
    by (force simp: lookup_def)
  also have "\<dots> \<longleftrightarrow> k = (getItem self, getCustomer self)"
    using assms by (simp add: registered_def)
  finally show ?thesis .
qed

lemma filter_insert_entry:
  "filter P (insert_entry dict k v) =
     filter P (takeWhile (\<lambda>e. fst e \<le> k) dict) @ (if P (k, v) then [(k, v)] else []) @
     filter P (dropWhile (\<lambda>e. fst e \<le> k) dict)"
  by (simp add: insert_entry_def)

text \<open>Removing the old entry and inserting the new one leaves exactly the new entry.\<close>

lemma reregister:
  assumes "filter (\<lambda>e. snd e = this) dict = [(k, this)]"
  shows "filter (\<lambda>e. snd e = this) (insert_entry (remove1 (k, this) dict) k' this) = [(k', this)]"
proof -
  let ?d1 = "remove1 (k, this) dict"
  have "filter (\<lambda>e. snd e = this) ?d1 = remove1 (k, this) (filter (\<lambda>e. snd e = this) dict)"
    by (simp add: filter_remove1)
  then have none: "filter (\<lambda>e. snd e = this) ?d1 = []"
    using assms by simp
  then have all: "\<forall>e\<in>set ?d1. snd e \<noteq> this"
    by (simp add: filter_empty_conv)
  have "filter (\<lambda>e. snd e = this) (takeWhile (\<lambda>e. fst e \<le> k') ?d1) = []"
    using all by (auto simp: filter_empty_conv dest: set_takeWhileD)
  moreover have "filter (\<lambda>e. snd e = this) (dropWhile (\<lambda>e. fst e \<le> k') ?d1) = []"
    using all by (auto simp: filter_empty_conv dest: set_dropWhileD)
  ultimately show ?thesis
    by (simp add: filter_insert_entry)
qed

lemma setItem_registered:
  assumes "registered dict this self"
  shows "registered (fst (Forecast_setItem dict this self i)) this (snd (Forecast_setItem dict this self i))"
  using reregister [of this dict "(getItem self, getCustomer self)" "(i, getCustomer self)"] assms
  by (simp add: registered_def Forecast_setItem_def Demand_setItem_def Let_def)

lemma setCustomer_registered:
  assumes "registered dict this self"
  shows "registered (fst (Forecast_setCustomer dict this self c)) this
           (snd (Forecast_setCustomer dict this self c))"
  using reregister [of this dict "(getItem self, getCustomer self)" "(getItem self, c)"] assms
  by (simp add: registered_def Forecast_setCustomer_def Demand_setCustomer_def Let_def)

text \<open>
  C6. For every forecast registered in the dictionary, after setItem changes the item
  (or setCustomer the customer), a lookup by the old key no longer returns the forecast,
  a lookup by the new key returns the same forecast, the forecast carries the new value,
  and the new value is propagated to every existing bucket, which is otherwise unchanged.
\<close>

theorem setItem_setCustomer_dictionary:
  assumes "registered dict this self"
  shows "(i \<noteq> getItem self \<longrightarrow>
            this \<notin> set (lookup (fst (Forecast_setItem dict this self i))
                           (getItem self, getCustomer self))) \<and>
         this \<in> set (lookup (fst (Forecast_setItem dict this self i)) (i, getCustomer self)) \<and>
         getItem (snd (Forecast_setItem dict this self i)) = i \<and>
         members (snd (Forecast_setItem dict this self i)) =
           map (\<lambda>b. b\<lparr>getItem := i\<rparr>) (members self) \<and>
         (c \<noteq> getCustomer self \<longrightarrow>
            this \<notin> set (lookup (fst (Forecast_setCustomer dict this self c))
                           (getItem self, getCustomer self))) \<and>
         this \<in> set (lookup (fst (Forecast_setCustomer dict this self c)) (getItem self, c)) \<and>
         getCustomer (snd (Forecast_setCustomer dict this self c)) = c \<and>
         members (snd (Forecast_setCustomer dict this self c)) =
           map (\<lambda>b. b\<lparr>getCustomer := c\<rparr>) (members self)"
proof -
  let ?ri = "Forecast_setItem dict this self i"
  let ?rc = "Forecast_setCustomer dict this self c"
  have ki: "(getItem (snd ?ri), getCustomer (snd ?ri)) = (i, getCustomer self)"
    by (simp add: Forecast_setItem_def Demand_setItem_def Let_def)
  have kc: "(getItem (snd ?rc), getCustomer (snd ?rc)) = (getItem self, c)"
    by (simp add: Forecast_setCustomer_def Demand_setCustomer_def Let_def)
  have li: "this \<in> set (lookup (fst ?ri) k) \<longleftrightarrow> k = (i, getCustomer self)" for k
    using registered_lookup [OF setItem_registered [OF assms, of i]] ki by simp
  have lc: "this \<in> set (lookup (fst ?rc) k) \<longleftrightarrow> k = (getItem self, c)" for k
    using registered_lookup [OF setCustomer_registered [OF assms, of c]] kc by simp
  have mi: "members (snd ?ri) = map (\<lambda>b. b\<lparr>getItem := i\<rparr>) (members self)"
    by (simp add: Forecast_setItem_def Demand_setItem_def Let_def)
  have mc: "members (snd ?rc) = map (\<lambda>b. b\<lparr>getCustomer := c\<rparr>) (members self)"
    by (simp add: Forecast_setCustomer_def Demand_setCustomer_def Let_def)
  show ?thesis
    using ki kc mi mc by (simp add: li lc)
qed

text \<open>
  The forecast at address 11, registered under item 1 and customer 2 in a dictionary of
  three forecasts, is moved to item 3, and (from the same start) to customer 1.
\<close>

theorem setItem_setCustomer_dictionary_witness:
  "registered [((1, 1), 10), ((1, 2), 11), ((2, 1), 12)] 11
     ((Forecast_ctor ''F'')\<lparr>getItem := 1, getCustomer := 2\<rparr>) \<and>
   lookup (fst (Forecast_setItem [((1, 1), 10), ((1, 2), 11), ((2, 1), 12)] 11
     ((Forecast_ctor ''F'')\<lparr>getItem := 1, getCustomer := 2\<rparr>) 3)) (1, 2) = [] \<and>
   lookup (fst (Forecast_setItem [((1, 1), 10), ((1, 2), 11), ((2, 1), 12)] 11
     ((Forecast_ctor ''F'')\<lparr>getItem := 1, getCustomer := 2\<rparr>) 3)) (3, 2) = [11] \<and>
   lookup (fst (Forecast_setCustomer [((1, 1), 10), ((1, 2), 11), ((2, 1), 12)] 11
     ((Forecast_ctor ''F'')\<lparr>getItem := 1, getCustomer := 2\<rparr>) 1)) (1, 2) = [] \<and>
   lookup (fst (Forecast_setCustomer [((1, 1), 10), ((1, 2), 11), ((2, 1), 12)] 11
     ((Forecast_ctor ''F'')\<lparr>getItem := 1, getCustomer := 2\<rparr>) 1)) (1, 1) = [10, 11]"
proof -
  let ?d = "[((1, 1), 10), ((1, 2), 11), ((2, 1), 12)] :: MapOfForecasts"
  let ?f = "(Forecast_ctor ''F'')\<lparr>getItem := 1, getCustomer := 2\<rparr>"
  have k: "getItem ?f = 1" "getCustomer ?f = 2"
    by (simp_all add: Forecast_ctor_def)
  have r: "registered ?d 11 ?f"
    by (simp add: registered_def k)
  have di: "fst (Forecast_setItem ?d 11 ?f 3) = [((1, 1), 10), ((2, 1), 12), ((3, 2), 11)]"
    by (simp add: Forecast_setItem_def insert_entry_def k Let_def)
  have dc: "fst (Forecast_setCustomer ?d 11 ?f 1) = [((1, 1), 10), ((1, 1), 11), ((2, 1), 12)]"
    by (simp add: Forecast_setCustomer_def insert_entry_def k Let_def)
  from setItem_setCustomer_dictionary [OF r, of 3 1]
  have "11 \<notin> set (lookup (fst (Forecast_setItem ?d 11 ?f 3)) (1, 2)) \<and>
        11 \<in> set (lookup (fst (Forecast_setItem ?d 11 ?f 3)) (3, 2)) \<and>
        11 \<notin> set (lookup (fst (Forecast_setCustomer ?d 11 ?f 1)) (1, 2)) \<and>
        11 \<in> set (lookup (fst (Forecast_setCustomer ?d 11 ?f 1)) (1, 1))"
    by (simp add: k)
  then show ?thesis
    using r unfolding di dc by (simp add: lookup_def)
qed

subsection \<open>Setting the quantity at a single date\<close>

lemma set_bucket_at_None:
  "\<forall>b\<in>set bs. \<not> DateRange_within (timebucket b) t \<Longrightarrow> set_bucket_at t q bs = None"
  by (induction bs) auto

lemma set_bucket_at_Some:
  "\<exists>b\<in>set bs. DateRange_within (timebucket b) t \<Longrightarrow>
   \<exists>pre b post. bs = pre @ b # post \<and> DateRange_within (timebucket b) t \<and>
     (\<forall>x\<in>set pre. \<not> DateRange_within (timebucket x) t) \<and>
     set_bucket_at t q bs = Some (pre @ b\<lparr>getQuantity := q\<rparr> # post)"
proof (induction bs)
  case Nil
  then show ?case by simp
next
  case (Cons a bs)
  show ?case
  proof (cases "DateRange_within (timebucket a) t")
    case True
    then have "a # bs = [] @ a # bs \<and> DateRange_within (timebucket a) t \<and>
       (\<forall>x\<in>set []. \<not> DateRange_within (timebucket x) t) \<and>
       set_bucket_at t q (a # bs) = Some ([] @ a\<lparr>getQuantity := q\<rparr> # bs)"
      by simp
    then show ?thesis by blast
  next
    case False
    with Cons.prems have "\<exists>b\<in>set bs. DateRange_within (timebucket b) t" by auto
    from Cons.IH [OF this] obtain pre b post where
      h: "bs = pre @ b # post" "DateRange_within (timebucket b) t"
         "\<forall>x\<in>set pre. \<not> DateRange_within (timebucket x) t"
         "set_bucket_at t q bs = Some (pre @ b\<lparr>getQuantity := q\<rparr> # post)"
      by blast
    with False have "a # bs = (a # pre) @ b # post \<and> DateRange_within (timebucket b) t \<and>
       (\<forall>x\<in>set (a # pre). \<not> DateRange_within (timebucket x) t) \<and>
       set_bucket_at t q (a # bs) = Some ((a # pre) @ b\<lparr>getQuantity := q\<rparr> # post)"
      by simp
    then show ?thesis by blast
  qed
qed


text \<open>
  The constructor establishes the invariant and the operations on a forecast keep it.
\<close>

lemma Forecast_ctor_invariant: "Forecast_invariant (Forecast_ctor nm)"
  by (simp add: Forecast_invariant_def Forecast_ctor_def Demand.extend_def)

lemma setQuantity_range_invariant:
  "Forecast_invariant self \<Longrightarrow> Forecast_invariant (snd (Forecast_setQuantity_range self r qty))"
  by (auto simp: Forecast_invariant_def Forecast_setQuantity_range_def split: option.splits)

lemma setItem_invariant:
  "Forecast_invariant self \<Longrightarrow> Forecast_invariant (snd (Forecast_setItem dict this self i))"
  by (simp add: Forecast_invariant_def Forecast_setItem_def Demand_setItem_def Let_def)

lemma setCustomer_invariant:
  "Forecast_invariant self \<Longrightarrow> Forecast_invariant (snd (Forecast_setCustomer dict this self c))"
  by (simp add: Forecast_invariant_def Forecast_setCustomer_def Demand_setCustomer_def Let_def)

text \<open>
  C3. For every call of setQuantity(range, qty) whose range starts and ends at the same
  instant: if some bucket's interval contains the instant, the call succeeds, the quantity
  of a bucket that contains the instant (the first one in the forecast's order) is set to
  exactly qty, not incremented, and every other bucket is unchanged; if no bucket contains
  the instant, the call fails with a data exception and the forecast is unchanged. The
  forecast is any forecast that has buckets only if it has a calendar.
\<close>

theorem setQuantity_degenerate:
  assumes "Forecast_invariant self" "getStart r = getEnd r"
  shows "((\<exists>b\<in>set (members self). DateRange_within (timebucket b) (getStart r)) \<longrightarrow>
            (\<exists>pre b post. members self = pre @ b # post \<and>
               DateRange_within (timebucket b) (getStart r) \<and>
               (\<forall>x\<in>set pre. \<not> DateRange_within (timebucket x) (getStart r)) \<and>
               Forecast_setQuantity_range self r qty =
                 (None, self\<lparr>members := pre @ b\<lparr>getQuantity := qty\<rparr> # post\<rparr>))) \<and>
         ((\<forall>b\<in>set (members self). \<not> DateRange_within (timebucket b) (getStart r)) \<longrightarrow>
            (\<exists>msg. Forecast_setQuantity_range self r qty = (Some (DataException msg), self)))"
proof (intro conjI impI)
  assume ex: "\<exists>b\<in>set (members self). DateRange_within (timebucket b) (getStart r)"
  then have "members self \<noteq> []" by auto
  with assms(1) have cal: "calptr self \<noteq> NULL" by (auto simp: Forecast_invariant_def)
  from set_bucket_at_Some [OF ex, of qty] obtain pre b post where
    h: "members self = pre @ b # post" "DateRange_within (timebucket b) (getStart r)"
       "\<forall>x\<in>set pre. \<not> DateRange_within (timebucket x) (getStart r)"
       "set_bucket_at (getStart r) qty (members self) = Some (pre @ b\<lparr>getQuantity := qty\<rparr> # post)"
    by blast
  have "Forecast_setQuantity_range self r qty =
          (None, self\<lparr>members := pre @ b\<lparr>getQuantity := qty\<rparr> # post\<rparr>)"
    using cal assms(2) h(4) by (simp add: Forecast_setQuantity_range_def)
  with h show "\<exists>pre b post. members self = pre @ b # post \<and>
               DateRange_within (timebucket b) (getStart r) \<and>
               (\<forall>x\<in>set pre. \<not> DateRange_within (timebucket x) (getStart r)) \<and>
               Forecast_setQuantity_range self r qty =
                 (None, self\<lparr>members := pre @ b\<lparr>getQuantity := qty\<rparr> # post\<rparr>)"
    by blast
next
  assume "\<forall>b\<in>set (members self). \<not> DateRange_within (timebucket b) (getStart r)"
  then have "set_bucket_at (getStart r) qty (members self) = None"
    by (rule set_bucket_at_None)
  then show "\<exists>msg. Forecast_setQuantity_range self r qty = (Some (DataException msg), self)"
    using assms(2) by (simp add: Forecast_setQuantity_range_def)
qed

text \<open>
  On the example forecast the date 12 lies in the second bucket, whose quantity becomes 5;
  the date 25 lies in no bucket, and the call fails.
\<close>

theorem setQuantity_degenerate_witness:
  "Forecast_invariant example_forecast \<and>
   Forecast_setQuantity_range example_forecast \<lparr>getStart = 12, getEnd = 12\<rparr> 5 =
     (None, example_forecast\<lparr>members :=
        [example_bucket ''F - 0'' 0 10 1, (example_bucket ''F - 10'' 10 20 0)\<lparr>getQuantity := 5\<rparr>]\<rparr>) \<and>
   Forecast_setQuantity_range example_forecast \<lparr>getStart = 25, getEnd = 25\<rparr> 5 =
     (Some (DataException ''no forecast bucket at the date''), example_forecast)"
proof -
  let ?b1 = "example_bucket ''F - 0'' 0 10 1"
  let ?b2 = "example_bucket ''F - 10'' 10 20 0"
  have inv: "Forecast_invariant example_forecast"
    by (simp add: Forecast_invariant_def example_forecast_def)
  have m: "members example_forecast = [?b1, ?b2]"
    by (simp add: example_forecast_def)
  have w1: "\<not> DateRange_within (timebucket ?b1) 12" "\<not> DateRange_within (timebucket ?b1) 25"
    by (simp_all add: DateRange_within_def example_bucket_def Demand.extend_def Demand_ctor_def)
  have w2: "DateRange_within (timebucket ?b2) 12" "\<not> DateRange_within (timebucket ?b2) 25"
    by (simp_all add: DateRange_within_def example_bucket_def Demand.extend_def Demand_ctor_def)
  from setQuantity_degenerate [OF inv, of "\<lparr>getStart = 12, getEnd = 12\<rparr>" 5]
  obtain pre b post where
    h: "[?b1, ?b2] = pre @ b # post" "DateRange_within (timebucket b) 12"
       "\<forall>x\<in>set pre. \<not> DateRange_within (timebucket x) 12"
       "Forecast_setQuantity_range example_forecast \<lparr>getStart = 12, getEnd = 12\<rparr> 5 =
          (None, example_forecast\<lparr>members := pre @ b\<lparr>getQuantity := 5\<rparr> # post\<rparr>)"
    using w2 by (auto simp: m)
  from h(1,2) w1 have "pre = [?b1] \<and> b = ?b2 \<and> post = []"
    by (auto simp: Cons_eq_append_conv)
  with h(4) have a: "Forecast_setQuantity_range example_forecast \<lparr>getStart = 12, getEnd = 12\<rparr> 5 =
     (None, example_forecast\<lparr>members := [?b1, ?b2\<lparr>getQuantity := 5\<rparr>]\<rparr>)"
    by simp
  from setQuantity_degenerate [OF inv, of "\<lparr>getStart = 25, getEnd = 25\<rparr>" 5]
  obtain msg where
    "Forecast_setQuantity_range example_forecast \<lparr>getStart = 25, getEnd = 25\<rparr> 5 =
       (Some (DataException msg), example_forecast)"
    using w1 w2 by (auto simp: m)
  then have b: "Forecast_setQuantity_range example_forecast \<lparr>getStart = 25, getEnd = 25\<rparr> 5 =
       (Some (DataException ''no forecast bucket at the date''), example_forecast)"
    by (simp add: Forecast_setQuantity_range_def example_forecast_def w1 w2 split: if_splits)
  from inv a b show ?thesis by blast
qed

end
